theory Spec2Isabelle
  imports Main "HOL-Library.Sublist"
begin

section \<open>Package search: building the Google search URL\<close>

text \<open>
  Go strings are byte sequences; they are modelled as \<^typ>\<open>string\<close>, whose characters
  are bytes. A Go map is a partial function, here the \<^const>\<open>map_of\<close> of the map
  literal's entries (Go refuses a literal with a repeated key, and the table has none).
\<close>

definition stdGoogleBase :: string where
  "stdGoogleBase = ''https://www.google.''"

definition GoogleDomainsEntries :: "(string \<times> string) list" where
  "GoogleDomainsEntries = [
    (''us'', ''com/search?q=''), (''ac'', ''ac/search?q=''), (''ad'', ''ad/search?q=''),
    (''ae'', ''ae/search?q=''), (''af'', ''com.af/search?q=''), (''ag'', ''com.ag/search?q=''),
    (''ai'', ''com.ai/search?q=''), (''al'', ''al/search?q=''), (''am'', ''am/search?q=''),
    (''ao'', ''co.ao/search?q=''), (''ar'', ''com.ar/search?q=''), (''as'', ''as/search?q=''),
    (''at'', ''at/search?q=''), (''au'', ''com.au/search?q=''), (''az'', ''az/search?q=''),
    (''ba'', ''ba/search?q=''), (''bd'', ''com.bd/search?q=''), (''be'', ''be/search?q=''),
    (''bf'', ''bf/search?q=''), (''bg'', ''bg/search?q=''), (''bh'', ''com.bh/search?q=''),
    (''bi'', ''bi/search?q=''), (''bj'', ''bj/search?q=''), (''bn'', ''com.bn/search?q=''),
    (''bo'', ''com.bo/search?q=''), (''br'', ''com.br/search?q=''), (''bs'', ''bs/search?q=''),
    (''bt'', ''bt/search?q=''), (''bw'', ''co.bw/search?q=''), (''by'', ''by/search?q=''),
    (''bz'', ''com.bz/search?q=''), (''ca'', ''ca/search?q=''), (''kh'', ''com.kh/search?q=''),
    (''cc'', ''cc/search?q=''), (''cd'', ''cd/search?q=''), (''cf'', ''cf/search?q=''),
    (''cat'', ''cat/search?q=''), (''cg'', ''cg/search?q=''), (''ch'', ''ch/search?q=''),
    (''ci'', ''ci/search?q=''), (''ck'', ''co.ck/search?q=''), (''cl'', ''cl/search?q=''),
    (''cm'', ''cm/search?q=''), (''cn'', ''cn/search?q=''), (''co'', ''com.co/search?q=''),
    (''cr'', ''co.cr/search?q=''), (''cu'', ''com.cu/search?q=''), (''cv'', ''cv/search?q=''),
    (''cy'', ''com.cy/search?q=''), (''cz'', ''cz/search?q=''), (''de'', ''de/search?q=''),
    (''dj'', ''dj/search?q=''), (''dk'', ''dk/search?q=''), (''dm'', ''dm/search?q=''),
    (''do'', ''com.do/search?q=''), (''dz'', ''dz/search?q=''), (''ec'', ''com.ec/search?q=''),
    (''ee'', ''ee/search?q=''), (''eg'', ''com.eg/search?q=''), (''es'', ''es/search?q=''),
    (''et'', ''com.et/search?q=''), (''fi'', ''fi/search?q=''), (''fj'', ''com.fj/search?q=''),
    (''fm'', ''fm/search?q=''), (''fr'', ''fr/search?q=''), (''ga'', ''ga/search?q=''),
    (''gb'', ''co.uk/search?q=''), (''ge'', ''ge/search?q=''), (''gf'', ''gf/search?q=''),
    (''gg'', ''gg/search?q=''), (''gh'', ''com.gh/search?q=''), (''gi'', ''com.gi/search?q=''),
    (''gl'', ''gl/search?q=''), (''gm'', ''gm/search?q=''), (''gp'', ''gp/search?q=''),
    (''gr'', ''gr/search?q=''), (''gt'', ''com.gt/search?q=''), (''gy'', ''gy/search?q=''),
    (''hk'', ''com.hk/search?q=''), (''hn'', ''hn/search?q=''), (''hr'', ''hr/search?q=''),
    (''ht'', ''ht/search?q=''), (''hu'', ''hu/search?q=''), (''id'', ''co.id/search?q=''),
    (''iq'', ''iq/search?q=''), (''ie'', ''ie/search?q=''), (''il'', ''co.il/search?q=''),
    (''im'', ''im/search?q=''), (''in'', ''co.in/search?q=''), (''io'', ''io/search?q=''),
    (''is'', ''is/search?q=''), (''it'', ''it/search?q=''), (''je'', ''je/search?q=''),
    (''jm'', ''com.jm/search?q=''), (''jo'', ''jo/search?q=''), (''jp'', ''co.jp/search?q=''),
    (''ke'', ''co.ke/search?q=''), (''ki'', ''ki/search?q=''), (''kg'', ''kg/search?q=''),
    (''kr'', ''co.kr/search?q=''), (''kw'', ''com.kw/search?q=''), (''kz'', ''kz/search?q=''),
    (''la'', ''la/search?q=''), (''lb'', ''com.lb/search?q=''), (''lc'', ''com.lc/search?q=''),
    (''li'', ''li/search?q=''), (''lk'', ''lk/search?q=''), (''ls'', ''co.ls/search?q=''),
    (''lt'', ''lt/search?q=''), (''lu'', ''lu/search?q=''), (''lv'', ''lv/search?q=''),
    (''ly'', ''com.ly/search?q=''), (''ma'', ''co.ma/search?q=''), (''md'', ''md/search?q=''),
    (''me'', ''me/search?q=''), (''mg'', ''mg/search?q=''), (''mk'', ''mk/search?q=''),
    (''ml'', ''ml/search?q=''), (''mm'', ''com.mm/search?q=''), (''mn'', ''mn/search?q=''),
    (''ms'', ''ms/search?q=''), (''mt'', ''com.mt/search?q=''), (''mu'', ''mu/search?q=''),
    (''mv'', ''mv/search?q=''), (''mw'', ''mw/search?q=''), (''mx'', ''com.mx/search?q=''),
    (''my'', ''com.my/search?q=''), (''mz'', ''co.mz/search?q=''), (''na'', ''com.na/search?q=''),
    (''ne'', ''ne/search?q=''), (''nf'', ''com.nf/search?q=''), (''ng'', ''com.ng/search?q=''),
    (''ni'', ''com.ni/search?q=''), (''nl'', ''nl/search?q=''), (''no'', ''no/search?q=''),
    (''np'', ''com.np/search?q=''), (''nr'', ''nr/search?q=''), (''nu'', ''nu/search?q=''),
    (''nz'', ''co.nz/search?q=''), (''om'', ''com.om/search?q=''), (''pa'', ''com.pa/search?q=''),
    (''pe'', ''com.pe/search?q=''), (''ph'', ''com.ph/search?q=''), (''pk'', ''com.pk/search?q=''),
    (''pl'', ''pl/search?q=''), (''pg'', ''com.pg/search?q=''), (''pn'', ''pn/search?q=''),
    (''pr'', ''com.pr/search?q=''), (''ps'', ''ps/search?q=''), (''pt'', ''pt/search?q=''),
    (''py'', ''com.py/search?q=''), (''qa'', ''com.qa/search?q=''), (''ro'', ''ro/search?q=''),
    (''rs'', ''rs/search?q=''), (''ru'', ''ru/search?q=''), (''rw'', ''rw/search?q=''),
    (''sa'', ''com.sa/search?q=''), (''sb'', ''com.sb/search?q=''), (''sc'', ''sc/search?q=''),
    (''se'', ''se/search?q=''), (''sg'', ''com.sg/search?q=''), (''sh'', ''sh/search?q=''),
    (''si'', ''si/search?q=''), (''sk'', ''sk/search?q=''), (''sl'', ''com.sl/search?q=''),
    (''sn'', ''sn/search?q=''), (''sm'', ''sm/search?q=''), (''so'', ''so/search?q=''),
    (''st'', ''st/search?q=''), (''sv'', ''com.sv/search?q=''), (''td'', ''td/search?q=''),
    (''tg'', ''tg/search?q=''), (''th'', ''co.th/search?q=''), (''tj'', ''com.tj/search?q=''),
    (''tk'', ''tk/search?q=''), (''tl'', ''tl/search?q=''), (''tm'', ''tm/search?q=''),
    (''to'', ''to/search?q=''), (''tn'', ''tn/search?q=''), (''tr'', ''com.tr/search?q=''),
    (''tt'', ''tt/search?q=''), (''tw'', ''com.tw/search?q=''), (''tz'', ''co.tz/search?q=''),
    (''ua'', ''com.ua/search?q=''), (''ug'', ''co.ug/search?q=''), (''uk'', ''co.uk/search?q=''),
    (''uy'', ''com.uy/search?q=''), (''uz'', ''co.uz/search?q=''), (''vc'', ''com.vc/search?q=''),
    (''ve'', ''co.ve/search?q=''), (''vg'', ''vg/search?q=''), (''vi'', ''co.vi/search?q=''),
    (''vn'', ''com.vn/search?q=''), (''vu'', ''vu/search?q=''), (''ws'', ''ws/search?q=''),
    (''za'', ''co.za/search?q=''), (''zm'', ''co.zm/search?q=''), (''zw'', ''co.zw/search?q='')]"

definition GoogleDomains :: "string \<rightharpoonup> string" where
  "GoogleDomains = map_of GoogleDomainsEntries"

text \<open>Indexing a Go map of strings gives the empty string for a key that is not there.\<close>

definition mapIndex :: "(string \<rightharpoonup> string) \<Rightarrow> string \<Rightarrow> string" where
  "mapIndex m k = (case m k of Some v \<Rightarrow> v | None \<Rightarrow> [])"

record SearchOptions =
  CountryCode :: string
  LanguageCode :: string
  Limit :: int
  Start :: int
  UserAgent :: string
  OverLimit :: bool
  ProxyAddr :: string

subsection \<open>The two library functions the URL is built with\<close>

text \<open>
  \<^verbatim>\<open>url.QueryEscape\<close> of Go's net/url, in its query-component mode: letters, digits
  and the marks \<^verbatim>\<open>- _ . ~\<close> stay, a space becomes \<^verbatim>\<open>+\<close>, every other byte
  becomes \<^verbatim>\<open>%XX\<close> with upper-case hexadecimal digits.
\<close>

definition byteOf :: "char \<Rightarrow> nat" where
  "byteOf c = of_char c"

definition isAlnum :: "char \<Rightarrow> bool" where
  "isAlnum c = ((97 \<le> byteOf c \<and> byteOf c \<le> 122) \<or> (65 \<le> byteOf c \<and> byteOf c \<le> 90)
     \<or> (48 \<le> byteOf c \<and> byteOf c \<le> 57))"

definition shouldEscape :: "char \<Rightarrow> bool" where
  "shouldEscape c = (if isAlnum c then False
     else if c \<in> set ''-_.~'' then False
     else True)"

definition upperhex :: string where
  "upperhex = ''0123456789ABCDEF''"

definition escapeByte :: "char \<Rightarrow> string" where
  "escapeByte c = (if c = CHR '' '' then ''+''
     else if shouldEscape c then [CHR ''%'', upperhex ! (byteOf c div 16), upperhex ! (byteOf c mod 16)]
     else [c])"

definition QueryEscape :: "string \<Rightarrow> string" where
  "QueryEscape s = concat (map escapeByte s)"

text \<open>\<^verbatim>\<open>strconv.Itoa\<close>: the decimal digits, with a minus sign for a negative number.\<close>

definition digitChar :: "nat \<Rightarrow> char" where
  "digitChar d = ''0123456789'' ! d"

fun natDigits :: "nat \<Rightarrow> string" where
  "natDigits n = (if n < 10 then [digitChar n] else natDigits (n div 10) @ [digitChar (n mod 10)])"

declare natDigits.simps [simp del]

definition Itoa :: "int \<Rightarrow> string" where
  "Itoa i = (if i < 0 then CHR ''-'' # natDigits (nat (- i)) else natDigits (nat i))"

subsection \<open>getSearchURL\<close>

definition getSearchURL :: "string \<Rightarrow> SearchOptions \<Rightarrow> string" where
  "getSearchURL searchTerm opts =
     (let base = (case GoogleDomains (CountryCode opts) of
                    Some val \<Rightarrow> stdGoogleBase @ val
                  | None \<Rightarrow> stdGoogleBase @ mapIndex GoogleDomains ''us'');
          query = QueryEscape searchTerm
      in base @ query @ ''&hl='' @ LanguageCode opts @ ''&start='' @ Itoa (Start opts))"

definition deOpts :: SearchOptions where
  "deOpts = \<lparr>CountryCode = ''de'', LanguageCode = ''en'', Limit = 0, Start = 10,
     UserAgent = [], OverLimit = False, ProxyAddr = []\<rparr>"

definition unknownCountryOpts :: SearchOptions where
  "unknownCountryOpts = \<lparr>CountryCode = ''xx'', LanguageCode = ''en'', Limit = 0, Start = - 120,
     UserAgent = [], OverLimit = False, ProxyAddr = []\<rparr>"

section \<open>Package search: SearchGoogle\<close>

text \<open>
  SearchGoogle talks to the rate limiter, the HTTP client and the result parser. They are
  outside this function and are taken as parameters (\<open>Env\<close>); the function's own control
  flow, its error returns and the order of the calls are the source's. A Go
  \<^verbatim>\<open>context.Context\<close> is an interface value that may be nil: \<open>Context option\<close>, with
  \<open>None\<close> for nil. Calling a method of a nil interface value panics, so the limiter's
  wait, which asks the context whether it is done, panics when it is handed nil. The
  lines written to the log are left out.
\<close>

datatype Context = Background | OtherContext nat

type_synonym error = string

record Result =
  Rank :: int
  URL :: string
  Title :: string
  Description :: string

record Request =
  reqMethod :: string
  reqURL :: string
  reqHeader :: "(string \<times> string) list"

record Response =
  StatusCode :: int
  Body :: string

datatype panic = NilContext | ParsePanic string

datatype 'a outcome = Panic panic | Returned 'a

text \<open>What the result parser does with a response: it returns, or it panics on its own
  account (it dereferences the URL it parsed from a result's link without a check).\<close>

datatype parsed = ParsePanics string | ParseReturns "error + Result list"

record Env =
  rateLimitWait :: "Context \<Rightarrow> error option"
  httpNewRequest :: "string \<Rightarrow> string \<Rightarrow> error + Request"
  clientDo :: "string option \<Rightarrow> Request \<Rightarrow> error + Response"
  parseResults :: "Response \<Rightarrow> parsed"

definition rateLimitWaitCall :: "Env \<Rightarrow> Context option \<Rightarrow> (error option) outcome" where
  "rateLimitWaitCall env ctx =
     (case ctx of None \<Rightarrow> Panic NilContext | Some c \<Rightarrow> Returned (rateLimitWait env c))"

definition zeroSearchOptions :: SearchOptions where
  "zeroSearchOptions = \<lparr>CountryCode = [], LanguageCode = [], Limit = 0, Start = 0,
     UserAgent = [], OverLimit = False, ProxyAddr = []\<rparr>"

definition defaultUserAgent :: string where
  "defaultUserAgent = ''Mozilla/5.0 (Windows NT 10.0; Win64; x64) AppleWebKit/537.36 (KHTML, like Gecko) Chrome/61.0.3163.100 Safari/537.36''"

text \<open>The options block (search\_website.go, lines 291 to 299): the first of the variadic
  options, or the zero value, with the default user agent when none is given.\<close>

definition checkOptions :: "SearchOptions list \<Rightarrow> SearchOptions" where
  "checkOptions opts =
     (let opt = (case opts of [] \<Rightarrow> zeroSearchOptions | o1 # _ \<Rightarrow> o1)
      in if UserAgent opt = [] then opt\<lparr>UserAgent := defaultUserAgent\<rparr> else opt)"

text \<open>The request and the answer (lines 301 to 333).\<close>

definition fetchResults :: "Env \<Rightarrow> string \<Rightarrow> SearchOptions \<Rightarrow> (error + Result list) outcome" where
  "fetchResults env searchTerm opt =
     (case httpNewRequest env ''GET'' (getSearchURL searchTerm opt) of
        Inl err \<Rightarrow> Returned (Inl err)
      | Inr req0 \<Rightarrow>
          (let req = req0\<lparr>reqHeader := (''User-Agent'', UserAgent opt) # reqHeader req0\<rparr>;
               proxy = (if ProxyAddr opt \<noteq> [] then Some (ProxyAddr opt) else None)
           in case clientDo env proxy req of
                Inl err \<Rightarrow> Returned (Inl err)
              | Inr resp \<Rightarrow>
                  if StatusCode resp \<noteq> 200
                  then Returned (Inl (''Received non-200 response code: '' @ Itoa (StatusCode resp)))
                  else (case parseResults env resp of
                          ParsePanics msg \<Rightarrow> Panic (ParsePanic msg)
                        | ParseReturns (Inl err) \<Rightarrow> Returned (Inl err)
                        | ParseReturns (Inr results) \<Rightarrow> Returned (Inr results))))"

text \<open>The function from its second statement on: the limiter's wait (lines 287 to 289),
  then the two blocks above.\<close>

definition searchGoogleBody ::
  "Env \<Rightarrow> Context option \<Rightarrow> string \<Rightarrow> SearchOptions list \<Rightarrow> (error + Result list) outcome" where
  "searchGoogleBody env ctx searchTerm opts =
     (case rateLimitWaitCall env ctx of
        Panic p \<Rightarrow> Panic p
      | Returned (Some err) \<Rightarrow> Returned (Inl err)
      | Returned None \<Rightarrow> fetchResults env searchTerm (checkOptions opts))"

text \<open>The whole function: the nil check on the context comes first (lines 283 to 285).\<close>

definition SearchGoogle ::
  "Env \<Rightarrow> Context option \<Rightarrow> string \<Rightarrow> SearchOptions list \<Rightarrow> (error + Result list) outcome" where
  "SearchGoogle env ctx searchTerm opts =
     (let ctx1 = (if ctx = None then Some Background else ctx)
      in searchGoogleBody env ctx1 searchTerm opts)"

text \<open>An environment for running the function: the limiter lets every call through, the
  request is built, the server answers 200 and the parser finds one result.\<close>

definition okEnv :: Env where
  "okEnv = \<lparr>rateLimitWait = (\<lambda>c. None),
     httpNewRequest = (\<lambda>m u. Inr \<lparr>reqMethod = m, reqURL = u, reqHeader = []\<rparr>),
     clientDo = (\<lambda>p r. Inr \<lparr>StatusCode = 200, Body = reqURL r\<rparr>),
     parseResults = (\<lambda>r. ParseReturns (Inr [\<lparr>Rank = 1, URL = Body r, Title = ''t'', Description = ''d''\<rparr>]))\<rparr>"

section \<open>HTML trees\<close>

text \<open>
  The node of golang.org/x/net/html, which both the extraction and the Markdown package
  read: its type, its data (the tag name of an element, the characters of a text node),
  its attributes in their order, the link to its parent and its children in document
  order (Go's FirstChild and NextSibling chain). The parent link is a view of the parent,
  which holds its own parent in turn; a nil link is \<open>None\<close>.
\<close>

datatype NodeType = ErrorNode | TextNode | DocumentNode | ElementNode | CommentNode | DoctypeNode

datatype Node =
  Node (Type: NodeType) (Data: string) (Attr: "(string \<times> string) list")
       (Parent: "Node option") (Children: "Node list")

definition element :: "string \<Rightarrow> (string \<times> string) list \<Rightarrow> Node list \<Rightarrow> Node" where
  "element tag attrs kids = Node ElementNode tag attrs None kids"

definition textNode :: "string \<Rightarrow> Node" where
  "textNode s = Node TextNode s [] None []"

section \<open>Package store: TraverseAndExtract\<close>

text \<open>
  TraverseAndExtract reads a goquery selection that holds one node, as every selection
  that goquery's Each hands to its callback does, and prints lines to standard output.
  The model returns the bytes printed. The goquery functions it calls are modelled on
  one node: NodeName, Attr (the first attribute with the key, and whether there is one),
  Text (the text nodes below the node, in document order) and Find with a tag selector
  (the matching elements strictly below the node, in document order).
\<close>

definition NodeName :: "Node \<Rightarrow> string" where
  "NodeName n = (case Type n of
       ElementNode \<Rightarrow> Data n
     | DoctypeNode \<Rightarrow> Data n
     | ErrorNode \<Rightarrow> ''#error''
     | TextNode \<Rightarrow> ''#text''
     | DocumentNode \<Rightarrow> ''#document''
     | CommentNode \<Rightarrow> ''#comment'')"

fun getAttributeValue :: "string \<Rightarrow> (string \<times> string) list \<Rightarrow> string \<times> bool" where
  "getAttributeValue attrName [] = ([], False)"
| "getAttributeValue attrName ((k, v) # as) =
     (if k = attrName then (v, True) else getAttributeValue attrName as)"

definition selAttr :: "Node \<Rightarrow> string \<Rightarrow> string \<times> bool" where
  "selAttr n attrName = getAttributeValue attrName (Attr n)"

fun selText :: "Node \<Rightarrow> string" where
  "selText (Node ty d as p cs) = (if ty = TextNode then d else []) @ concat (map selText cs)"

fun matchAll :: "(Node \<Rightarrow> bool) \<Rightarrow> Node \<Rightarrow> Node list" where
  "matchAll m (Node ty d as p cs) =
     (if m (Node ty d as p cs) then [Node ty d as p cs] else []) @ concat (map (matchAll m) cs)"

definition selFind :: "(Node \<Rightarrow> bool) \<Rightarrow> Node \<Rightarrow> Node list" where
  "selFind m n = concat (map (matchAll m) (filter (\<lambda>c. Type c = ElementNode) (Children n)))"

definition hasTag :: "string list \<Rightarrow> Node \<Rightarrow> bool" where
  "hasTag tags n = (Type n = ElementNode \<and> Data n \<in> set tags)"

text \<open>fmt.Println puts a space between its operands and a newline at the end.\<close>

definition Println2 :: "string \<Rightarrow> string \<Rightarrow> string" where
  "Println2 a b = a @ '' '' @ b @ ''\<newline>''"

definition Println3 :: "string \<Rightarrow> string \<Rightarrow> string \<Rightarrow> string" where
  "Println3 a b c = a @ '' '' @ b @ '' '' @ c @ ''\<newline>''"

definition tabChar :: char where
  "tabChar = CHR 0x09"

text \<open>The row of a table: the loop over the cells appends each cell's text and a tab.\<close>

definition tableRow :: "Node \<Rightarrow> string" where
  "tableRow tr =
     (let cells = foldl (\<lambda>cells cell. cells @ selText cell @ [tabChar]) [] (selFind (hasTag [''th'', ''td'']) tr)
      in Println2 ''table row: '' cells)"

definition TraverseAndExtract :: "Node \<Rightarrow> string" where
  "TraverseAndExtract s =
     (let nodeName = NodeName s in
      if nodeName = ''header'' \<or> nodeName = ''footer'' \<or> nodeName = ''nav'' \<or> nodeName = ''aside''
         \<or> nodeName = ''comments'' \<or> nodeName = ''script'' \<or> nodeName = ''style''
      then []
      else if nodeName \<in> set [''h1'', ''h2'', ''h3'', ''h4'', ''h5'', ''h6'', ''p'', ''li'', ''td'', ''span'',
                               ''blockquote'', ''pre'']
      then Println3 nodeName '': '' (selText s)
      else if nodeName = ''a''
      then (let (href, _) = selAttr s ''href'' in Println3 nodeName '': '' href)
      else if nodeName = ''img''
      then (let (src, exists) = selAttr s ''src'';
                src1 = (if \<not> exists then fst (selAttr s ''data-src'') else src)
            in Println3 nodeName '': '' src1)
      else if nodeName = ''table''
      then concat (map tableRow (selFind (hasTag [''tr'']) s))
      else if nodeName = ''meta''
      then (let (name, exists) = selAttr s ''name''
            in if exists \<and> name = ''author''
               then (let (content, _) = selAttr s ''content'' in Println2 ''Author: '' content)
               else [])
      else [])"

text \<open>Two inputs: an image that has only an alt text, and a table with a header row and
  two data rows.\<close>

definition imgAltOnly :: Node where
  "imgAltOnly = element ''img'' [(''alt'', ''logo'')] []"

definition imgLazy :: Node where
  "imgLazy = element ''img'' [(''alt'', ''logo''), (''data-src'', ''a.png'')] []"

definition cell :: "string \<Rightarrow> string \<Rightarrow> Node" where
  "cell tag s = element tag [] [textNode s]"

definition table3 :: Node where
  "table3 = element ''table'' []
     [element ''tr'' [] [cell ''th'' ''Name'', cell ''th'' ''Age''],
      element ''tr'' [] [cell ''td'' ''Al'', cell ''td'' ''30''],
      element ''tr'' [] [cell ''td'' ''Bo'', cell ''td'' ''25'']]"

section \<open>Package markdown: the tree accessors\<close>

text \<open>
  The tests in convert\_html\_to\_markdown\_test.go call attr, hasClass, isChildOf and
  langFromClass; the file that holds their bodies is not among the sources. Each test is
  embedded below as the source has it, as a function of the accessor it calls that
  returns the messages the test reports (none when it passes). A node the tests build
  without a type has Go's zero value, ErrorNode.
\<close>

subsection \<open>attr\<close>

text \<open>
  Modelled from the spec: the body of attr is missing. The spec: attr(node, name)
  "returns the attribute value or empty string if absent or if node has no attributes.
  Never fails." The attributes are the list the test builds; the first attribute with
  the name counts.
\<close>

fun attrValue :: "string \<Rightarrow> (string \<times> string) list \<Rightarrow> string" where
  "attrValue key [] = []"
| "attrValue key ((k, v) # as) = (if k = key then v else attrValue key as)"

text \<open>Modelled from the spec: attr(node, name), the lookup above on the node's attributes.\<close>

definition attr :: "Node \<Rightarrow> string \<Rightarrow> string" where
  "attr node key = attrValue key (Attr node)"

definition attrNode :: Node where
  "attrNode = Node ErrorNode [] [(''class'', ''myclass''), (''id'', ''myid'')] None []"

definition TestAttr :: "(Node \<Rightarrow> string \<Rightarrow> string) \<Rightarrow> string list" where
  "TestAttr attrF =
     (let node = attrNode
      in (if attrF node ''class'' \<noteq> ''myclass'' then [''Node should have class as myclass''] else [])
       @ (if attrF node ''id'' \<noteq> ''myid'' then [''Node should have id as myid''] else [])
       @ (if attrF node ''style'' \<noteq> [] then [''Node should not have style attribute''] else []))"

subsection \<open>hasClass\<close>

text \<open>
  Modelled from the spec: the body of hasClass is missing. The spec: has\_class(node,
  name) is "true iff name appears as a whitespace-separated token in the node's class
  attribute. Must correctly split on arbitrary runs of whitespace, not just single
  spaces." The split is the loop of Go's strings.Fields over the bytes: a token ends at
  a white-space byte, and empty tokens are dropped. White space is the ASCII white space
  (tab, line feed, vertical tab, form feed, carriage return, space).
\<close>

definition isSpace :: "char \<Rightarrow> bool" where
  "isSpace c = (c \<in> set [CHR 0x09, CHR 0x0A, CHR 0x0B, CHR 0x0C, CHR 0x0D, CHR '' ''])"

text \<open>Modelled from the spec: the split "on arbitrary runs of whitespace"; \<open>cur\<close> is the
  token being read.\<close>

fun fieldsFrom :: "string \<Rightarrow> string \<Rightarrow> string list" where
  "fieldsFrom cur [] = (if cur = [] then [] else [cur])"
| "fieldsFrom cur (c # cs) =
     (if isSpace c then (if cur = [] then fieldsFrom [] cs else cur # fieldsFrom [] cs)
      else fieldsFrom (cur @ [c]) cs)"

definition Fields :: "string \<Rightarrow> string list" where
  "Fields s = fieldsFrom [] s"

text \<open>Modelled from the spec: has\_class(node, name), "true iff name appears as a
  whitespace-separated token in the node's class attribute".\<close>

definition hasClass :: "Node \<Rightarrow> string \<Rightarrow> bool" where
  "hasClass node clazz = (clazz \<in> set (Fields (attr node ''class'')))"

definition classNode :: "string \<Rightarrow> Node" where
  "classNode cls = Node ErrorNode [] [(''class'', cls)] None []"

definition TestHasClass :: "(Node \<Rightarrow> string \<Rightarrow> bool) \<Rightarrow> string list" where
  "TestHasClass hasClassF =
     (let node = classNode ''class1 class2''
      in (if \<not> hasClassF node ''class1'' then [''Node should have class1''] else [])
       @ (if \<not> hasClassF node ''class2'' then [''Node should have class2''] else [])
       @ (if hasClassF node ''class3'' then [''Node should not have class3''] else []))"

text \<open>What the spec's sentence says of a token, written out: a non-empty run without
  white space that has white space or the end of the string on each side.\<close>

definition isToken :: "string \<Rightarrow> string \<Rightarrow> bool" where
  "isToken t s = (t \<noteq> [] \<and> \<not> list_ex isSpace t
     \<and> (\<exists>pre post. s = pre @ t @ post
           \<and> (pre = [] \<or> isSpace (last pre)) \<and> (post = [] \<or> isSpace (hd post))))"

subsection \<open>isChildOf\<close>

text \<open>
  Modelled from the spec: the body of isChildOf is missing. The spec: is\_child\_of(node,
  ancestor\_tag) "walks the parent chain starting at node's parent upward; returns true
  if any ancestor's tag equals ancestor\_tag. Returns false if node is nil/absent or has
  no matching ancestor, including when node itself has the tag".
\<close>

fun hasAncestor :: "Node \<Rightarrow> string \<Rightarrow> bool" where
  "hasAncestor (Node ty d as p cs) tag =
     (case p of None \<Rightarrow> False | Some q \<Rightarrow> Data q = tag \<or> hasAncestor q tag)"

text \<open>Modelled from the spec: is\_child\_of(node, ancestor\_tag), false for a nil node and
  the walk up the parent chain otherwise.\<close>

definition is_child_of_spec :: "Node option \<Rightarrow> string \<Rightarrow> bool" where
  "is_child_of_spec node tag = (case node of None \<Rightarrow> False | Some n \<Rightarrow> hasAncestor n tag)"

text \<open>
  TestIsChildOf, from the sources, builds divNode, spanNode below it and pNode below
  spanNode, and reports an error unless pNode is a child of span, pNode is not a child
  of div ("pNode should not be a direct child of divNode") and spanNode is a child of
  div.
\<close>

definition divNode :: Node where
  "divNode = Node ErrorNode ''div'' [] None []"

definition spanNode :: Node where
  "spanNode = Node ErrorNode ''span'' [] (Some divNode) []"

definition pNode :: Node where
  "pNode = Node ErrorNode ''p'' [] (Some spanNode) []"

definition TestIsChildOf :: "(Node option \<Rightarrow> string \<Rightarrow> bool) \<Rightarrow> string list" where
  "TestIsChildOf isChildOfF =
     (if \<not> isChildOfF (Some pNode) ''span'' then [''pNode should be a child of spanNode''] else [])
   @ (if isChildOfF (Some pNode) ''div'' then [''pNode should not be a direct child of divNode''] else [])
   @ (if \<not> isChildOfF (Some spanNode) ''div'' then [''spanNode should be a child of divNode''] else [])"

subsection \<open>langFromClass\<close>

text \<open>
  Modelled from the spec: the body of langFromClass is missing. The spec:
  lang\_from\_class(pre\_node) "locates the first child element with tag code (or checks
  pre\_node itself), reads its class attribute, and returns the suffix of the first token
  matching pattern language-X; returns empty string if no such token exists. Multiple
  non-matching class tokens must be ignored; the first matching token wins." The tokens
  of the code child come first, then those of the pre node itself; a token matches when
  language- is its prefix.
\<close>

definition firstCodeChild :: "Node \<Rightarrow> Node option" where
  "firstCodeChild node = find (\<lambda>c. Type c = ElementNode \<and> Data c = ''code'') (Children node)"

text \<open>Modelled from the spec: the class tokens langFromClass looks through.\<close>

definition classTokens :: "Node \<Rightarrow> string list" where
  "classTokens node =
     (case firstCodeChild node of None \<Rightarrow> [] | Some c \<Rightarrow> Fields (attr c ''class''))
     @ Fields (attr node ''class'')"

text \<open>Modelled from the spec: "the suffix of the first token matching pattern
  language-X", if there is one.\<close>

fun firstLanguage :: "string list \<Rightarrow> string option" where
  "firstLanguage [] = None"
| "firstLanguage (t # ts) =
     (if prefix ''language-'' t then Some (drop (length ''language-'') t) else firstLanguage ts)"

text \<open>Modelled from the spec: lang\_from\_class(pre\_node), the empty string when no token
  matches.\<close>

definition langFromClass :: "Node \<Rightarrow> string" where
  "langFromClass node = (case firstLanguage (classTokens node) of None \<Rightarrow> [] | Some x \<Rightarrow> x)"

definition preWithClass :: "string \<Rightarrow> Node" where
  "preWithClass cls = Node ErrorNode ''pre'' [(''class'', cls)] None [Node ErrorNode ''code'' [] None []]"

definition TestLangFromClass :: "(Node \<Rightarrow> string) \<Rightarrow> string list" where
  "TestLangFromClass langFromClassF =
     (if langFromClassF (preWithClass ''language-golang'') \<noteq> ''golang''
      then [''Expected golang, but got '' @ langFromClassF (preWithClass ''language-golang'')] else [])
   @ (if langFromClassF (preWithClass ''other-class language-python'') \<noteq> ''python''
      then [''Expected python, but got '' @ langFromClassF (preWithClass ''other-class language-python'')] else [])
   @ (if langFromClassF (preWithClass ''other-class'') \<noteq> []
      then [''Expected an empty string, but got '' @ langFromClassF (preWithClass ''other-class'')] else [])"

section \<open>Properties of the URL builder\<close>

lemma upperhex_alnum: "k < 16 \<Longrightarrow> isAlnum (upperhex ! k)"
proof -
  assume "k < 16"
  then have "k \<in> set [0..<16]" by simp
  then show ?thesis
    by (simp add: upt_rec upperhex_def isAlnum_def byteOf_def; elim disjE; simp)
qed

lemma escapeByte_alphabet:
  "x \<in> set (escapeByte c) \<Longrightarrow> isAlnum x \<or> x \<in> set ''-_.~+%''"
proof -
  assume x: "x \<in> set (escapeByte c)"
  have "byteOf c < 256" by (simp add: byteOf_def)
  then have d: "byteOf c div 16 < 16" by simp
  have m: "byteOf c mod 16 < 16" by simp
  show ?thesis
    using x upperhex_alnum [OF d] upperhex_alnum [OF m]
    by (auto simp: escapeByte_def shouldEscape_def split: if_splits)
qed

lemma QueryEscape_alphabet:
  "x \<in> set (QueryEscape s) \<Longrightarrow> isAlnum x \<or> x \<in> set ''-_.~+%''"
  unfolding QueryEscape_def using escapeByte_alphabet by auto

lemma GoogleDomains_us: "GoogleDomains ''us'' = Some ''com/search?q=''"
  by (simp add: GoogleDomains_def GoogleDomainsEntries_def)

lemma GoogleDomains_de: "GoogleDomains ''de'' = Some ''de/search?q=''"
  by (simp add: GoogleDomains_def GoogleDomainsEntries_def)

lemma GoogleDomains_xx: "GoogleDomains ''xx'' = None"
  by (simp add: GoogleDomains_def GoogleDomainsEntries_def)

lemma Itoa_10: "Itoa 10 = ''10''"
  by (simp add: Itoa_def natDigits.simps digitChar_def)

lemma Itoa_minus_120: "Itoa (- 120) = ''-120''"
  by (simp add: Itoa_def natDigits.simps digitChar_def)

lemma QueryEscape_example: "QueryEscape ''a b&c'' = ''a+b%26c''"
  by (simp add: QueryEscape_def escapeByte_def shouldEscape_def isAlnum_def byteOf_def upperhex_def)

text \<open>
  C9. getSearchURL starts the URL with the domain that GoogleDomains maps the country code
  to when the code is a key of the table, and with the "us" domain, that is with
  https://www.google.com/search?q=, when it is not. The search term goes in through
  QueryEscape: what is embedded holds only letters, digits and the bytes - _ . ~ + %.
\<close>

theorem getSearchURL_builds_url:
  "(\<forall>d. GoogleDomains (CountryCode opts) = Some d \<longrightarrow>
      getSearchURL searchTerm opts =
        ''https://www.google.'' @ d @ QueryEscape searchTerm @ ''&hl='' @ LanguageCode opts
          @ ''&start='' @ Itoa (Start opts))
   \<and> (GoogleDomains (CountryCode opts) = None \<longrightarrow>
      getSearchURL searchTerm opts =
        ''https://www.google.com/search?q='' @ QueryEscape searchTerm @ ''&hl='' @ LanguageCode opts
          @ ''&start='' @ Itoa (Start opts))
   \<and> (\<forall>c \<in> set (QueryEscape searchTerm). isAlnum c \<or> c \<in> set ''-_.~+%'')"
proof (intro conjI allI impI ballI)
  fix d assume "GoogleDomains (CountryCode opts) = Some d"
  then show "getSearchURL searchTerm opts =
        ''https://www.google.'' @ d @ QueryEscape searchTerm @ ''&hl='' @ LanguageCode opts
          @ ''&start='' @ Itoa (Start opts)"
    by (simp add: getSearchURL_def stdGoogleBase_def)
next
  assume "GoogleDomains (CountryCode opts) = None"
  then show "getSearchURL searchTerm opts =
        ''https://www.google.com/search?q='' @ QueryEscape searchTerm @ ''&hl='' @ LanguageCode opts
          @ ''&start='' @ Itoa (Start opts)"
    by (simp add: getSearchURL_def stdGoogleBase_def mapIndex_def GoogleDomains_us)
next
  fix c assume "c \<in> set (QueryEscape searchTerm)"
  then show "isAlnum c \<or> c \<in> set ''-_.~+%''" by (rule QueryEscape_alphabet)
qed

theorem getSearchURL_builds_url_witness:
  "getSearchURL ''a b&c'' deOpts = ''https://www.google.de/search?q=a+b%26c&hl=en&start=10''
   \<and> getSearchURL ''a b&c'' unknownCountryOpts
       = ''https://www.google.com/search?q=a+b%26c&hl=en&start=-120''"
  using getSearchURL_builds_url [of deOpts "''a b&c''"]
    getSearchURL_builds_url [of unknownCountryOpts "''a b&c''"]
    GoogleDomains_de GoogleDomains_xx
  by (simp add: deOpts_def unknownCountryOpts_def Itoa_10 Itoa_minus_120 QueryEscape_example)

section \<open>SearchGoogle and a nil context\<close>

lemma searchGoogleBody_nil_panics:
  "searchGoogleBody env None searchTerm opts = Panic NilContext"
  by (simp add: searchGoogleBody_def rateLimitWaitCall_def)

lemma fetchResults_not_nil:
  "fetchResults env searchTerm opt \<noteq> Panic NilContext"
  by (simp add: fetchResults_def Let_def split: sum.split parsed.split)

lemma searchGoogleBody_not_nil:
  "searchGoogleBody env (Some c) searchTerm opts \<noteq> Panic NilContext"
  by (simp add: searchGoogleBody_def rateLimitWaitCall_def fetchResults_not_nil split: option.split)

lemma getSearchURL_zero:
  "getSearchURL ''bbc.com'' (checkOptions []) = ''https://www.google.com/search?q=bbc.com&hl=&start=0''"
proof -
  have cc: "CountryCode (checkOptions []) = []"
    by (simp add: checkOptions_def zeroSearchOptions_def)
  have none: "GoogleDomains [] = None"
    by (simp add: GoogleDomains_def GoogleDomainsEntries_def)
  have q: "QueryEscape ''bbc.com'' = ''bbc.com''"
    by (simp add: QueryEscape_def escapeByte_def shouldEscape_def isAlnum_def byteOf_def)
  have i: "Itoa 0 = ''0''"
    by (simp add: Itoa_def natDigits.simps digitChar_def)
  show ?thesis
    by (simp add: getSearchURL_def cc none q i mapIndex_def GoogleDomains_us stdGoogleBase_def
        checkOptions_def zeroSearchOptions_def)
qed

lemma SearchGoogle_okEnv_nil:
  "SearchGoogle okEnv None ''bbc.com'' []
     = Returned (Inr [\<lparr>Rank = 1, URL = ''https://www.google.com/search?q=bbc.com&hl=&start=0'',
         Title = ''t'', Description = ''d''\<rparr>])"
  by (simp add: SearchGoogle_def searchGoogleBody_def rateLimitWaitCall_def fetchResults_def
      getSearchURL_zero okEnv_def)

text \<open>
  C10. SearchGoogle called with a nil context replaces it by the background context before
  the limiter's wait, the only place that uses the context: the call does what the call
  with the background context does, and it never panics on a nil context, whatever the
  limiter, the HTTP client and the parser do.
\<close>

theorem SearchGoogle_nil_context:
  "SearchGoogle env None searchTerm opts = SearchGoogle env (Some Background) searchTerm opts
   \<and> SearchGoogle env ctx searchTerm opts \<noteq> Panic NilContext"
proof
  show "SearchGoogle env None searchTerm opts = SearchGoogle env (Some Background) searchTerm opts"
    by (simp add: SearchGoogle_def)
next
  show "SearchGoogle env ctx searchTerm opts \<noteq> Panic NilContext"
  proof (cases ctx)
    case None
    then show ?thesis by (simp add: SearchGoogle_def searchGoogleBody_not_nil)
  next
    case (Some c)
    then show ?thesis by (simp add: SearchGoogle_def searchGoogleBody_not_nil)
  qed
qed

theorem SearchGoogle_nil_context_witness:
  "SearchGoogle okEnv None ''bbc.com'' [] = SearchGoogle okEnv (Some Background) ''bbc.com'' []
   \<and> SearchGoogle okEnv None ''bbc.com'' []
     = Returned (Inr [\<lparr>Rank = 1, URL = ''https://www.google.com/search?q=bbc.com&hl=&start=0'',
         Title = ''t'', Description = ''d''\<rparr>])"
  using SearchGoogle_nil_context [of okEnv "''bbc.com''" "[]" None] SearchGoogle_okEnv_nil
  by simp

section \<open>What TraverseAndExtract prints for an image and for a table\<close>

lemma getAttributeValue_map_of:
  "getAttributeValue a as = (case map_of as a of Some v \<Rightarrow> (v, True) | None \<Rightarrow> ([], False))"
  by (induction as) auto

lemma foldl_append_concat:
  "foldl (\<lambda>acc x. acc @ f x) a xs = a @ concat (map f xs)"
  by (induction xs arbitrary: a) simp_all

lemma tableRow_cells:
  "tableRow tr = ''table row:  ''
     @ concat (map (\<lambda>c. selText c @ [tabChar]) (selFind (hasTag [''th'', ''td'']) tr)) @ ''\<newline>''"
  by (simp add: tableRow_def Println2_def foldl_append_concat)

lemma TraverseAndExtract_imgAltOnly: "TraverseAndExtract imgAltOnly = ''img :  \<newline>''"
  by (simp add: TraverseAndExtract_def imgAltOnly_def element_def NodeName_def selAttr_def Println3_def)

lemma TraverseAndExtract_imgLazy: "TraverseAndExtract imgLazy = ''img :  a.png\<newline>''"
  by (simp add: TraverseAndExtract_def imgLazy_def element_def NodeName_def selAttr_def Println3_def)

lemma TraverseAndExtract_table3:
  "TraverseAndExtract table3 =
     ''table row:  Name'' @ [tabChar] @ ''Age'' @ [tabChar] @ ''\<newline>''
     @ ''table row:  Al'' @ [tabChar] @ ''30'' @ [tabChar] @ ''\<newline>''
     @ ''table row:  Bo'' @ [tabChar] @ ''25'' @ [tabChar] @ ''\<newline>''"
  by (simp add: TraverseAndExtract_def table3_def cell_def element_def textNode_def NodeName_def
      selFind_def hasTag_def tableRow_cells)

text \<open>
  C6, as the code has it. For every img element the line printed is the tag name and the
  target: the value of src when the element has a src attribute, otherwise the value of
  data-src, otherwise nothing. The line is printed in each case, so the element is never
  skipped; it holds no alt text.
\<close>

theorem TraverseAndExtract_img_target:
  assumes "Type s = ElementNode" and "Data s = ''img''"
  shows "TraverseAndExtract s = ''img :  ''
     @ (case map_of (Attr s) ''src'' of
          Some v \<Rightarrow> v
        | None \<Rightarrow> (case map_of (Attr s) ''data-src'' of Some v \<Rightarrow> v | None \<Rightarrow> []))
     @ ''\<newline>''"
proof -
  have name: "NodeName s = ''img''"
    using assms by (simp add: NodeName_def)
  show ?thesis
    by (simp add: TraverseAndExtract_def name selAttr_def getAttributeValue_map_of Println3_def
        split: option.split)
qed

theorem TraverseAndExtract_img_target_witness:
  "Type imgLazy = ElementNode \<and> Data imgLazy = ''img''
   \<and> TraverseAndExtract imgLazy = ''img :  a.png\<newline>''"
proof -
  have ty: "Type imgLazy = ElementNode" and d: "Data imgLazy = ''img''"
    by (simp_all add: imgLazy_def element_def)
  show ?thesis
    using TraverseAndExtract_img_target [OF ty d] ty d
    by (simp add: imgLazy_def element_def)
qed

text \<open>
  C6, as the claim has it, fails where it says that the alt text stays visible: for an
  image whose only attribute is alt = logo the whole output is the line with the empty
  target, and the alt text is nowhere in it.
\<close>

theorem TraverseAndExtract_img_no_alt:
  "TraverseAndExtract imgAltOnly = ''img :  \<newline>''
   \<and> \<not> sublist ''logo'' (TraverseAndExtract imgAltOnly)"
  by (simp add: TraverseAndExtract_imgAltOnly sublist_Cons_right)

text \<open>
  C7, as the code has it. For every table element one line is printed for each tr below
  it, in document order: the words table row, then the text of each th and td below the
  row, each followed by a tab. Nothing is printed between the rows, so there is no
  header-separator row.
\<close>

theorem TraverseAndExtract_table_rows:
  assumes "Type s = ElementNode" and "Data s = ''table''"
  shows "TraverseAndExtract s =
     concat (map (\<lambda>tr. ''table row:  ''
                    @ concat (map (\<lambda>c. selText c @ [tabChar]) (selFind (hasTag [''th'', ''td'']) tr))
                    @ ''\<newline>'')
                 (selFind (hasTag [''tr'']) s))"
proof -
  have name: "NodeName s = ''table''"
    using assms by (simp add: NodeName_def)
  have rows: "tableRow = (\<lambda>tr. ''table row:  ''
       @ concat (map (\<lambda>c. selText c @ [tabChar]) (selFind (hasTag [''th'', ''td'']) tr))
       @ ''\<newline>'')"
    by (rule ext) (rule tableRow_cells)
  show ?thesis
    by (simp add: TraverseAndExtract_def name rows)
qed

theorem TraverseAndExtract_table_rows_witness:
  "Type table3 = ElementNode \<and> Data table3 = ''table''
   \<and> TraverseAndExtract table3 =
     concat (map (\<lambda>tr. ''table row:  ''
                    @ concat (map (\<lambda>c. selText c @ [tabChar]) (selFind (hasTag [''th'', ''td'']) tr))
                    @ ''\<newline>'')
                 (selFind (hasTag [''tr'']) table3))"
proof -
  have ty: "Type table3 = ElementNode" and d: "Data table3 = ''table''"
    by (simp_all add: table3_def element_def)
  show ?thesis
    using TraverseAndExtract_table_rows [OF ty d] ty d by simp
qed

text \<open>
  C7, as the claim has it, fails: the table with one header row and two data rows gives
  three lines, the header's and, right after it, the first data row's; the output holds
  no separator.
\<close>

theorem TraverseAndExtract_table_no_separator:
  "TraverseAndExtract table3 =
     ''table row:  Name'' @ [tabChar] @ ''Age'' @ [tabChar] @ ''\<newline>''
     @ ''table row:  Al'' @ [tabChar] @ ''30'' @ [tabChar] @ ''\<newline>''
     @ ''table row:  Bo'' @ [tabChar] @ ''25'' @ [tabChar] @ ''\<newline>''
   \<and> \<not> sublist ''---'' (TraverseAndExtract table3)"
  by (simp add: TraverseAndExtract_table3 sublist_Cons_right tabChar_def)

section \<open>The tree accessors of package markdown\<close>

subsection \<open>Tokens of a class attribute\<close>

lemma isToken_Nil: "\<not> isToken t []"
  by (auto simp: isToken_def)

lemma nospace_iff: "(\<not> list_ex isSpace t) = (\<forall>x \<in> set t. \<not> isSpace x)"
  by (simp add: list_ex_iff)

lemma isToken_space_Cons:
  assumes c: "isSpace c"
  shows "isToken t (c # s) = isToken t s"
proof
  assume "isToken t (c # s)"
  then obtain pre post where t: "t \<noteq> []" "\<forall>x \<in> set t. \<not> isSpace x"
    and eq: "c # s = pre @ t @ post"
    and l: "pre = [] \<or> isSpace (last pre)" and r: "post = [] \<or> isSpace (hd post)"
    by (auto simp: isToken_def nospace_iff)
  show "isToken t s"
  proof (cases pre)
    case Nil
    with eq t have "c \<in> set t" by (cases t) auto
    with t c show ?thesis by blast
  next
    case (Cons a pre')
    with eq have s: "s = pre' @ t @ post" by simp
    from l Cons have "pre' = [] \<or> isSpace (last pre')" by (auto split: if_splits)
    with s t r show ?thesis unfolding isToken_def nospace_iff by blast
  qed
next
  assume "isToken t s"
  then obtain pre post where t: "t \<noteq> []" "\<forall>x \<in> set t. \<not> isSpace x"
    and eq: "s = pre @ t @ post"
    and l: "pre = [] \<or> isSpace (last pre)" and r: "post = [] \<or> isSpace (hd post)"
    by (auto simp: isToken_def nospace_iff)
  have "c # s = (c # pre) @ t @ post" using eq by simp
  moreover have "isSpace (last (c # pre))" using l c by auto
  ultimately show "isToken t (c # s)"
    unfolding isToken_def nospace_iff using t r by blast
qed

lemma isToken_run:
  assumes u: "u \<noteq> []" "\<forall>x \<in> set u. \<not> isSpace x"
  shows "isToken t u = (t = u)"
proof
  assume "isToken t u"
  then obtain pre post where t: "t \<noteq> []"
    and eq: "u = pre @ t @ post"
    and l: "pre = [] \<or> isSpace (last pre)" and r: "post = [] \<or> isSpace (hd post)"
    by (auto simp: isToken_def)
  have "pre = []"
  proof (rule ccontr)
    assume "pre \<noteq> []"
    then have "last pre \<in> set u" using eq by simp
    with l u \<open>pre \<noteq> []\<close> show False by blast
  qed
  moreover have "post = []"
  proof (rule ccontr)
    assume "post \<noteq> []"
    then have "hd post \<in> set u" using eq by simp
    with r u \<open>post \<noteq> []\<close> show False by blast
  qed
  ultimately show "t = u" using eq by simp
next
  assume "t = u"
  then show "isToken t u"
    unfolding isToken_def nospace_iff using u by (intro conjI exI [of _ "[]"]) auto
qed

lemma isToken_run_space:
  assumes u: "u \<noteq> []" "\<forall>x \<in> set u. \<not> isSpace x" and c: "isSpace c"
  shows "isToken t (u @ c # s) = (t = u \<or> isToken t s)"
proof
  assume "isToken t (u @ c # s)"
  then obtain pre post where t: "t \<noteq> []" "\<forall>x \<in> set t. \<not> isSpace x"
    and eq: "u @ c # s = pre @ t @ post"
    and l: "pre = [] \<or> isSpace (last pre)" and r: "post = [] \<or> isSpace (hd post)"
    by (auto simp: isToken_def nospace_iff)
  from eq obtain us where
    "(u = pre @ us \<and> us @ c # s = t @ post) \<or> (u @ us = pre \<and> c # s = us @ t @ post)"
    by (auto simp: append_eq_append_conv2)
  then show "t = u \<or> isToken t s"
  proof
    assume a: "u = pre @ us \<and> us @ c # s = t @ post"
    have "pre = []"
    proof (rule ccontr)
      assume "pre \<noteq> []"
      then have "last pre \<in> set u" using a by simp
      with l u \<open>pre \<noteq> []\<close> show False by blast
    qed
    with a have e2: "u @ c # s = t @ post" by simp
    then obtain vs where
      "(u = t @ vs \<and> vs @ c # s = post) \<or> (u @ vs = t \<and> c # s = vs @ post)"
      by (auto simp: append_eq_append_conv2)
    then have "t = u"
    proof
      assume b: "u = t @ vs \<and> vs @ c # s = post"
      have "vs = []"
      proof (rule ccontr)
        assume "vs \<noteq> []"
        then have "hd post = hd vs" "hd vs \<in> set u" "post \<noteq> []" using b by auto
        with r u show False by auto
      qed
      with b show "t = u" by simp
    next
      assume b: "u @ vs = t \<and> c # s = vs @ post"
      have "vs = []"
      proof (rule ccontr)
        assume "vs \<noteq> []"
        then have "hd vs = c" using b by (cases vs) auto
        then have "c \<in> set t" using b \<open>vs \<noteq> []\<close> by auto
        with t c show False by blast
      qed
      with b show "t = u" by simp
    qed
    then show ?thesis ..
  next
    assume a: "u @ us = pre \<and> c # s = us @ t @ post"
    have "us \<noteq> []"
    proof
      assume "us = []"
      with a have "c # s = t @ post" by simp
      with t have "c \<in> set t" by (cases t) auto
      with t c show False by blast
    qed
    then obtain us' where us: "us = c # us'" using a by (cases us) auto
    with a have s: "s = us' @ t @ post" by simp
    have "us' = [] \<or> isSpace (last us')"
    proof (cases "us' = []")
      case False
      then have "last pre = last us'" using a us by auto
      moreover have "pre \<noteq> []" using a u by auto
      ultimately show ?thesis using l by auto
    qed simp
    with s t r have "isToken t s" unfolding isToken_def nospace_iff by blast
    then show ?thesis ..
  qed
next
  assume "t = u \<or> isToken t s"
  then show "isToken t (u @ c # s)"
  proof
    assume "t = u"
    then show ?thesis
      unfolding isToken_def nospace_iff using u c
      by (intro conjI exI [of _ "[]"] exI [of _ "c # s"]) auto
  next
    assume "isToken t s"
    then obtain pre post where t: "t \<noteq> []" "\<forall>x \<in> set t. \<not> isSpace x"
      and eq: "s = pre @ t @ post"
      and l: "pre = [] \<or> isSpace (last pre)" and r: "post = [] \<or> isSpace (hd post)"
      by (auto simp: isToken_def nospace_iff)
    have "u @ c # s = (u @ c # pre) @ t @ post" using eq by simp
    moreover have "isSpace (last (u @ c # pre))" using l c by auto
    ultimately show ?thesis
      unfolding isToken_def nospace_iff using t r by blast
  qed
qed

lemma fieldsFrom_tokens:
  "\<forall>x \<in> set cur. \<not> isSpace x \<Longrightarrow> (t \<in> set (fieldsFrom cur s)) = isToken t (cur @ s)"
proof (induction s arbitrary: cur)
  case Nil
  then show ?case by (cases "cur = []") (auto simp: isToken_Nil isToken_run)
next
  case (Cons c cs)
  show ?case
  proof (cases "isSpace c")
    case True
    show ?thesis
    proof (cases "cur = []")
      case True
      with \<open>isSpace c\<close> Cons.IH [of "[]"] show ?thesis by (simp add: isToken_space_Cons)
    next
      case False
      with \<open>isSpace c\<close> Cons.IH [of "[]"] Cons.prems show ?thesis
        by (simp add: isToken_run_space) 
    qed
  next
    case False
    with Cons.IH [of "cur @ [c]"] Cons.prems show ?thesis by simp
  qed
qed

lemma Fields_tokens: "(t \<in> set (Fields s)) = isToken t s"
  using fieldsFrom_tokens [of "[]" t s] by (simp add: Fields_def)


lemma Fields_class1_class2: "Fields ''class1 class2'' = [''class1'', ''class2'']"
  by (simp add: Fields_def isSpace_def)

lemma Fields_runs:
  "Fields ('' a'' @ [CHR 0x09, CHR 0x0A] @ ''  b '') = [''a'', ''b'']"
  by (simp add: Fields_def isSpace_def)

subsection \<open>The tests of the sources, run on the accessors\<close>

lemma attrValue_map_of:
  "attrValue a as = (case map_of as a of Some v \<Rightarrow> v | None \<Rightarrow> [])"
  by (induction as) auto

lemma TestAttr_passes: "TestAttr attr = []"
  by (simp add: TestAttr_def attr_def attrNode_def)

lemma TestHasClass_passes: "TestHasClass hasClass = []"
  by (simp add: TestHasClass_def hasClass_def attr_def classNode_def Fields_class1_class2)

text \<open>
  The spec's is\_child\_of and TestIsChildOf disagree on one input: below div, then span,
  then p, the walk up the parent chain finds div above p, and the test reports an error
  for every function that says so.
\<close>

lemma is_child_of_spec_pNode_div: "is_child_of_spec (Some pNode) ''div''"
  by (simp add: is_child_of_spec_def pNode_def spanNode_def divNode_def)

lemma TestIsChildOf_fails_on_spec:
  "TestIsChildOf is_child_of_spec = [''pNode should not be a direct child of divNode'']"
  by (simp add: TestIsChildOf_def is_child_of_spec_def pNode_def spanNode_def divNode_def)

lemma TestIsChildOf_requires:
  "TestIsChildOf f = [] \<Longrightarrow>
     f (Some pNode) ''span'' \<and> \<not> f (Some pNode) ''div'' \<and> f (Some spanNode) ''div''"
  by (auto simp: TestIsChildOf_def split: if_splits)

lemma langFromClass_golang: "langFromClass (preWithClass ''language-golang'') = ''golang''"
  by (simp add: langFromClass_def classTokens_def firstCodeChild_def preWithClass_def attr_def
      Fields_def isSpace_def)

lemma langFromClass_python:
  "langFromClass (preWithClass ''other-class language-python'') = ''python''"
  by (simp add: langFromClass_def classTokens_def firstCodeChild_def preWithClass_def attr_def
      Fields_def isSpace_def)

lemma langFromClass_other: "langFromClass (preWithClass ''other-class'') = []"
  by (simp add: langFromClass_def classTokens_def firstCodeChild_def preWithClass_def attr_def
      Fields_def isSpace_def)

lemma TestLangFromClass_passes: "TestLangFromClass langFromClass = []"
  by (simp add: TestLangFromClass_def langFromClass_golang langFromClass_python langFromClass_other)



subsection \<open>The claims on the accessors\<close>

text \<open>
  C5. attr is a function of the node and the name into the strings, with no error among
  its results: it gives the value of the attribute when the node has it (the first one
  with that name; the one and only when the names are distinct) and the empty string
  when the node has no attribute of that name, so also when it has no attributes at
  all. TestAttr passes.
\<close>

theorem attr_never_fails:
  "attr n a = (case map_of (Attr n) a of Some v \<Rightarrow> v | None \<Rightarrow> [])
   \<and> (\<forall>v. (a, v) \<in> set (Attr n) \<and> distinct (map fst (Attr n)) \<longrightarrow> attr n a = v)
   \<and> (a \<notin> fst ` set (Attr n) \<longrightarrow> attr n a = [])
   \<and> (Attr n = [] \<longrightarrow> attr n a = [])
   \<and> TestAttr attr = []"
proof (intro conjI allI impI)
  show eq: "attr n a = (case map_of (Attr n) a of Some v \<Rightarrow> v | None \<Rightarrow> [])"
    by (simp add: attr_def attrValue_map_of)
  show "attr n a = v" if "(a, v) \<in> set (Attr n) \<and> distinct (map fst (Attr n))" for v
  proof -
    from that have "map_of (Attr n) a = Some v" by (simp add: map_of_is_SomeI)
    with eq show ?thesis by simp
  qed
  show "attr n a = []" if "a \<notin> fst ` set (Attr n)"
  proof -
    from that have "map_of (Attr n) a = None" by (simp add: map_of_eq_None_iff)
    with eq show ?thesis by simp
  qed
  show "attr n a = []" if "Attr n = []"
    using that by (simp add: attr_def)
  show "TestAttr attr = []" by (rule TestAttr_passes)
qed

theorem attr_never_fails_witness:
  "attr attrNode ''id'' = ''myid'' \<and> attr attrNode ''style'' = []
   \<and> attr (Node ElementNode ''p'' [] None []) ''class'' = []"
  using attr_never_fails [of attrNode "''id''"] attr_never_fails [of attrNode "''style''"]
    attr_never_fails [of "Node ElementNode ''p'' [] None []" "''class''"]
  by (simp add: attrNode_def)

text \<open>
  C4. hasClass(n, c) is true exactly when c is a whole token of the class attribute of n:
  a non-empty run of bytes without white space, with white space or an end of the value
  on each side. Runs of white space of any length and kind separate tokens. For
  class="class1 class2" it is true for class1 and class2 and false for class3, and for
  the part class of a token.
\<close>

theorem hasClass_whole_token:
  "hasClass n c = isToken c (attr n ''class'')
   \<and> TestHasClass hasClass = []
   \<and> \<not> hasClass (classNode ''class1 class2'') ''class''
   \<and> hasClass (classNode ('' a'' @ [CHR 0x09, CHR 0x0A] @ ''  b '')) ''b''"
proof (intro conjI)
  show "hasClass n c = isToken c (attr n ''class'')"
    by (simp add: hasClass_def Fields_tokens)
  show "TestHasClass hasClass = []" by (rule TestHasClass_passes)
  show "\<not> hasClass (classNode ''class1 class2'') ''class''"
    by (simp add: hasClass_def attr_def classNode_def Fields_class1_class2)
  have "attr (classNode ('' a'' @ [CHR 0x09, CHR 0x0A] @ ''  b '')) ''class''
      = '' a'' @ [CHR 0x09, CHR 0x0A] @ ''  b ''"
    by (simp add: attr_def classNode_def)
  then show "hasClass (classNode ('' a'' @ [CHR 0x09, CHR 0x0A] @ ''  b '')) ''b''"
    by (simp only: hasClass_def Fields_runs) simp
qed

theorem hasClass_whole_token_witness:
  "isToken ''class2'' ''class1 class2'' \<and> \<not> isToken ''class3'' ''class1 class2''
   \<and> \<not> isToken ''class'' ''class1 class2''"
proof -
  have a: "attr (classNode ''class1 class2'') ''class'' = ''class1 class2''"
    by (simp add: attr_def classNode_def)
  have h: "hasClass (classNode ''class1 class2'') ''class2''"
    "\<not> hasClass (classNode ''class1 class2'') ''class3''"
    "\<not> hasClass (classNode ''class1 class2'') ''class''"
    by (simp_all add: hasClass_def a Fields_class1_class2)
  show ?thesis
    using hasClass_whole_token [of "classNode ''class1 class2''" "''class2''"]
      hasClass_whole_token [of "classNode ''class1 class2''" "''class3''"]
      hasClass_whole_token [of "classNode ''class1 class2''" "''class''"] h
    by (simp only: a) simp
qed



end
